theory Spec2Isabelle
  imports Main "HOL-Library.AList"
begin

section \<open>JavaScript values\<close>

text \<open>
  The values the protocol layer handles: \<open>undefined\<close>, \<open>null\<close>, booleans, numbers,
  strings, arrays, plain objects (an association list in insertion order, read with
  \<open>map_of\<close>), \<open>Error\<close> instances (name and message), and objects that bring a conversion
  method of their own.
  \<^item> The code below never computes with a number: it tests \<open>typeof\<close> and truthiness and
    converts to text. So a number is held as the text that \<open>ToString\<close> gives for it
    (\<open>42\<close>, \<open>1.5\<close>, \<open>1e+21\<close>, \<open>NaN\<close>), which makes that conversion exact.
  \<^item> \<open>JCustom c\<close> is an object whose only own property is a method \<open>toString\<close>; \<open>c\<close> is
    what converting the object to a string does: it throws a value (\<open>Inl\<close>) or yields a
    text (\<open>Inr\<close>).
  \<^item> No value has an accessor property, and functions are not values here.
  A character is a code unit below 256; Polish diacritics of the message texts are
  written without their marks.
\<close>

datatype jsval =
    JUndefined
  | JNull
  | JBool bool
  | JNum string
  | JStr string
  | JArr "jsval list"
  | JObj "(string \<times> jsval) list"
  | JError string string
  | JCustom "jsval + string"

definition dq :: string where
  "dq = [CHR 0x22]"

definition sq :: string where
  "sq = [CHR 0x27]"

fun join_with :: "string \<Rightarrow> string list \<Rightarrow> string" where
  "join_with sep [] = []"
| "join_with sep [s] = s"
| "join_with sep (s # t # ss) = s @ sep @ join_with sep (t # ss)"

fun show_nat :: "nat \<Rightarrow> string" where
  "show_nat n = (if n < 10 then [''0123456789'' ! n]
                 else show_nat (n div 10) @ [''0123456789'' ! (n mod 10)])"

definition show_int :: "int \<Rightarrow> string" where
  "show_int i = (if i < 0 then ''-'' @ show_nat (nat (- i)) else show_nat (nat i))"

text \<open>
  \<open>ToString\<close>, as a template literal applies it to an interpolated value: it throws a
  value (\<open>Inl\<close>) or yields the text (\<open>Inr\<close>). A plain object converts through
  \<open>Object.prototype.toString\<close> unless it has an own property \<open>toString\<close>, which is then
  not callable (no value here is), and the conversion throws a \<open>TypeError\<close>. An array
  joins the conversions of its elements, the first throw ending it.
\<close>

fun to_string :: "jsval \<Rightarrow> jsval + string"
  and to_string_elems :: "jsval list \<Rightarrow> jsval + string list" where
  "to_string JUndefined = Inr ''undefined''"
| "to_string JNull = Inr ''null''"
| "to_string (JBool b) = Inr (if b then ''true'' else ''false'')"
| "to_string (JNum t) = Inr t"
| "to_string (JStr s) = Inr s"
| "to_string (JArr xs) =
     (case to_string_elems xs of Inl e \<Rightarrow> Inl e | Inr ss \<Rightarrow> Inr (join_with '','' ss))"
| "to_string (JObj kvs) =
     (if ''toString'' \<in> set (map fst kvs)
      then Inl (JError ''TypeError'' ''Cannot convert object to primitive value'')
      else Inr ''[object Object]'')"
| "to_string (JError n m) =
     Inr (if m = [] then n else if n = [] then m else n @ '': '' @ m)"
| "to_string (JCustom c) = c"
| "to_string_elems [] = Inr []"
| "to_string_elems (x # xs) =
     (case (if x = JUndefined \<or> x = JNull then Inr [] else to_string x) of
        Inl e \<Rightarrow> Inl e
      | Inr s \<Rightarrow>
          (case to_string_elems xs of Inl e \<Rightarrow> Inl e | Inr ss \<Rightarrow> Inr (s # ss)))"

text \<open>The template literal \<open>`prefix${v}`\<close>.\<close>

definition interpolate :: "string \<Rightarrow> jsval \<Rightarrow> jsval + string" where
  "interpolate prefix v = (case to_string v of Inl e \<Rightarrow> Inl e | Inr s \<Rightarrow> Inr (prefix @ s))"

text \<open>\<open>typeof v === 'object'\<close> for a value that is neither \<open>null\<close> nor an array.\<close>

fun is_object :: "jsval \<Rightarrow> bool" where
  "is_object (JObj kvs) = True"
| "is_object (JError n m) = True"
| "is_object (JCustom c) = True"
| "is_object v = False"

text \<open>\<open>typeof v === 'string'\<close>.\<close>

fun is_string :: "jsval \<Rightarrow> bool" where
  "is_string (JStr s) = True"
| "is_string v = False"

text \<open>The characters of a value that \<open>typeof\<close> has shown to be a string.\<close>

fun string_of :: "jsval \<Rightarrow> string" where
  "string_of (JStr s) = s"
| "string_of v = []"

text \<open>\<open>Object.keys(v)\<close>: the own enumerable keys; an \<open>Error\<close> has none.\<close>

fun object_keys :: "jsval \<Rightarrow> string list" where
  "object_keys (JObj kvs) = map fst kvs"
| "object_keys (JCustom c) = [''toString'']"
| "object_keys v = []"

text \<open>
  \<open>v[k]\<close> on a value that is not \<open>undefined\<close> or \<open>null\<close>, for the keys the code and the
  validation library read (\<open>version\<close>, \<open>action\<close>, \<open>name\<close>, \<open>parameters\<close>, \<open>status\<close>,
  \<open>result\<close>, \<open>error\<close>, \<open>message\<close>): a missing property reads as \<open>undefined\<close>. None of
  these reads runs code of the value, there being no accessor properties.
\<close>

fun read_prop :: "jsval \<Rightarrow> string \<Rightarrow> jsval" where
  "read_prop (JObj kvs) k = (case map_of kvs k of Some x \<Rightarrow> x | None \<Rightarrow> JUndefined)"
| "read_prop (JError n m) k =
     (if k = ''message'' then JStr m else if k = ''name'' then JStr n else JUndefined)"
| "read_prop v k = JUndefined"

text \<open>
  The member expression \<open>v.k\<close>: reading a property of \<open>undefined\<close> or \<open>null\<close> throws a
  \<open>TypeError\<close> (\<open>Inl\<close> is the thrown value).
\<close>

definition get_member :: "jsval \<Rightarrow> string \<Rightarrow> jsval + jsval" where
  "get_member v k =
     (if v = JUndefined \<or> v = JNull
      then Inl (JError ''TypeError''
                 (''Cannot read properties of '' @ (if v = JUndefined then ''undefined'' else ''null'')
                  @ '' (reading '' @ sq @ k @ sq @ '')''))
      else Inr (read_prop v k))"

section \<open>The validation library (Joi)\<close>

text \<open>
  \<open>mcp-schema.js\<close> declares its two schemas with the Joi library. The fragment of Joi it
  uses is embedded here: typed schemas \<open>any\<close>, \<open>string\<close>, \<open>object\<close> with the flags
  \<open>required\<close>, \<open>forbidden\<close>, \<open>valid\<close>, and the conditional \<open>when\<close> on a sibling key.
  Validation runs with Joi's defaults: it stops at the first error, unknown keys of an
  object with declared keys are rejected, an absent (\<open>undefined\<close>) value is valid unless
  the schema is \<open>required\<close>, the empty string is not a valid \<open>string\<close>, and no type is
  converted into another. The values that \<open>valid\<close> allows are strings in both schemas,
  and are held as such.
\<close>

datatype presence = Optional | Required | Forbidden

datatype joi_type = AnyT | StringT | ObjectT

datatype joi =
    Schema joi_type "(string \<times> joi) list option" presence "string list"
  | When string jsval joi joi

definition Joi_any :: joi where
  "Joi_any = Schema AnyT None Optional []"

definition Joi_string :: joi where
  "Joi_string = Schema StringT None Optional []"

definition Joi_object :: joi where
  "Joi_object = Schema ObjectT None Optional []"

definition Joi_object_keys :: "(string \<times> joi) list \<Rightarrow> joi" where
  "Joi_object_keys ks = Schema ObjectT (Some ks) Optional []"

fun required :: "joi \<Rightarrow> joi" where
  "required (Schema t ks p vs) = Schema t ks Required vs"
| "required s = s"

fun forbidden :: "joi \<Rightarrow> joi" where
  "forbidden (Schema t ks p vs) = Schema t ks Forbidden vs"
| "forbidden s = s"

fun valid :: "string list \<Rightarrow> joi \<Rightarrow> joi" where
  "valid ws (Schema t ks p vs) = Schema t ks p (vs @ ws)"
| "valid ws s = s"

text \<open>
  \<open>.default(d)\<close> changes the value Joi hands back for an absent input, never the verdict;
  the code below reads the verdict only.
\<close>

definition joi_default :: "jsval \<Rightarrow> joi \<Rightarrow> joi" where
  "joi_default d s = s"

definition Joi_forbidden :: joi where
  "Joi_forbidden = forbidden Joi_any"

definition Joi_when :: "string \<Rightarrow> jsval \<Rightarrow> joi \<Rightarrow> joi \<Rightarrow> joi" where
  "Joi_when ref is thn otherwise = When ref is thn otherwise"

datatype joi_code =
    AnyRequired
  | AnyUnknown
  | AnyOnly "string list"
  | StringBase
  | StringEmpty
  | ObjectBase
  | ObjectUnknown

datatype joi_error = JoiError joi_code "string list"

fun first_unknown :: "string list \<Rightarrow> string list \<Rightarrow> string option" where
  "first_unknown declared [] = None"
| "first_unknown declared (k # ks) =
     (if k \<in> set declared then first_unknown declared ks else Some k)"

text \<open>
  \<open>validate s parent path v\<close>: the first error of value \<open>v\<close> against schema \<open>s\<close>, or
  \<open>None\<close>; \<open>parent\<close> is the enclosing object (a \<open>when\<close> reads its sibling key there) and
  \<open>path\<close> the keys leading to \<open>v\<close>.
\<close>

fun validate :: "joi \<Rightarrow> jsval \<Rightarrow> string list \<Rightarrow> jsval \<Rightarrow> joi_error option"
  and validate_keys :: "(string \<times> joi) list \<Rightarrow> jsval \<Rightarrow> string list \<Rightarrow> joi_error option" where
  "validate (When ref is thn otherwise) parent path v =
     (if read_prop parent ref = is then validate thn parent path v
      else validate otherwise parent path v)"
| "validate (Schema t ks p vs) parent path v =
     (if v = JUndefined then (if p = Required then Some (JoiError AnyRequired path) else None)
      else if p = Forbidden then Some (JoiError AnyUnknown path)
      else if vs \<noteq> []
      then (if v \<in> JStr ` set vs then None else Some (JoiError (AnyOnly vs) path))
      else case t of
          AnyT \<Rightarrow> None
        | StringT \<Rightarrow>
            (case v of
               JStr s \<Rightarrow> if s = [] then Some (JoiError StringEmpty path) else None
             | _ \<Rightarrow> Some (JoiError StringBase path))
        | ObjectT \<Rightarrow>
            (if \<not> is_object v then Some (JoiError ObjectBase path)
             else case ks of
                 None \<Rightarrow> None
               | Some keys \<Rightarrow>
                   (case validate_keys keys v path of
                      Some e \<Rightarrow> Some e
                    | None \<Rightarrow>
                       (case first_unknown (map fst keys) (object_keys v) of
                          Some k \<Rightarrow> Some (JoiError ObjectUnknown (path @ [k]))
                        | None \<Rightarrow> None))))"
| "validate_keys [] obj path = None"
| "validate_keys ((k, s) # rest) obj path =
     (case validate s obj (path @ [k]) (read_prop obj k) of
        Some e \<Rightarrow> Some e
      | None \<Rightarrow> validate_keys rest obj path)"

text \<open>The text of a validation error, \<open>error.message\<close>.\<close>

fun code_text :: "joi_code \<Rightarrow> string" where
  "code_text AnyRequired = ''is required''"
| "code_text AnyUnknown = ''is not allowed''"
| "code_text (AnyOnly vs) =
     ''must be '' @ (if length vs = 1 then [] else ''one of '')
       @ ''['' @ join_with '', '' vs @ '']''"
| "code_text StringBase = ''must be a string''"
| "code_text StringEmpty = ''is not allowed to be empty''"
| "code_text ObjectBase = ''must be of type object''"
| "code_text ObjectUnknown = ''is not allowed''"

fun message :: "joi_error \<Rightarrow> string" where
  "message (JoiError c path) =
     dq @ (if path = [] then ''value'' else join_with ''.'' path) @ dq @ '' '' @ code_text c"

section \<open>Envelope codec (mcp-schema.js)\<close>

definition requestSchema :: joi where
  "requestSchema = Joi_object_keys
     [(''version'', required (valid [''1.0''] Joi_string)),
      (''action'', required (Joi_object_keys
         [(''name'', required Joi_string),
          (''parameters'', joi_default (JObj []) Joi_object)]))]"

definition responseSchema :: joi where
  "responseSchema = Joi_object_keys
     [(''version'', required (valid [''1.0''] Joi_string)),
      (''status'', required (valid [''success'', ''error''] Joi_string)),
      (''result'', Joi_when ''status'' (JStr ''success'') (required Joi_object) Joi_forbidden),
      (''error'', Joi_when ''status'' (JStr ''error'') (required Joi_string) Joi_forbidden)]"

definition new_Error :: "string \<Rightarrow> jsval" where
  "new_Error msg = JError ''Error'' msg"

definition createSuccessResponse :: "jsval \<Rightarrow> jsval + jsval" where
  "createSuccessResponse result =
     (let response = JObj [(''version'', JStr ''1.0''), (''status'', JStr ''success''),
                           (''result'', result)]
      in case validate responseSchema JUndefined [] response of
           Some e \<Rightarrow> Inl (new_Error (''Nieprawidlowa odpowiedz MCP: '' @ message e))
         | None \<Rightarrow> Inr response)"

definition createErrorResponse :: "jsval \<Rightarrow> jsval + jsval" where
  "createErrorResponse errorMessage =
     (let response = JObj [(''version'', JStr ''1.0''), (''status'', JStr ''error''),
                           (''error'', errorMessage)]
      in case validate responseSchema JUndefined [] response of
           Some e \<Rightarrow> Inl (new_Error (''Nieprawidlowa odpowiedz MCP: '' @ message e))
         | None \<Rightarrow> Inr response)"

definition validateRequest :: "jsval \<Rightarrow> jsval" where
  "validateRequest request =
     (case validate requestSchema JUndefined [] request of
        Some e \<Rightarrow> JStr (message e)
      | None \<Rightarrow> JBool True)"

definition validateResponse :: "jsval \<Rightarrow> jsval" where
  "validateResponse response =
     (case validate responseSchema JUndefined [] response of
        Some e \<Rightarrow> JStr (message e)
      | None \<Rightarrow> JBool True)"

text \<open>The two shapes of a response envelope, and the request shape named by the protocol.\<close>

definition success_envelope :: "jsval \<Rightarrow> jsval" where
  "success_envelope r =
     JObj [(''version'', JStr ''1.0''), (''status'', JStr ''success''), (''result'', r)]"

definition error_envelope :: "string \<Rightarrow> jsval" where
  "error_envelope msg =
     JObj [(''version'', JStr ''1.0''), (''status'', JStr ''error''), (''error'', JStr msg)]"

text \<open>
  A response envelope: the error shape with a non-empty message or the success shape with
  an object as result.
\<close>

definition response_envelope :: "jsval \<Rightarrow> bool" where
  "response_envelope resp =
     ((\<exists>m. m \<noteq> [] \<and> resp = error_envelope m)
      \<or> (\<exists>r. is_object r \<and> resp = success_envelope r))"

text \<open>
  A conforming request: an object whose \<open>version\<close> is \<open>"1.0"\<close> and whose \<open>action\<close> is an
  object with a non-empty string \<open>name\<close>.
\<close>

definition conforming :: "jsval \<Rightarrow> bool" where
  "conforming v =
     (is_object v \<and> read_prop v ''version'' = JStr ''1.0''
      \<and> is_object (read_prop v ''action'')
      \<and> is_string (read_prop (read_prop v ''action'') ''name'')
      \<and> read_prop (read_prop v ''action'') ''name'' \<noteq> JStr [])"

section \<open>Tool registry and dispatcher (mcp-server.js)\<close>

text \<open>
  A registered handler is one of the two built-in closures of \<open>_registerSystemTools\<close>
  or a function supplied by the integrator. A call of a supplied function ends by
  throwing a value (\<open>Inl\<close>) or by returning one (\<open>Inr\<close>); the built-in ones read the
  registry and the clock.
\<close>

datatype handler =
    GetToolsHandler
  | PingHandler
  | ToolHandler "jsval \<Rightarrow> jsval + jsval"

text \<open>
  The three \<open>Map\<close>s of the server, each an association list in insertion order
  (\<open>Map.set\<close> is \<open>AList.update\<close>: a present key keeps its place, a new one goes last).
  The Express application, the port and the console log take no part in what follows.
\<close>

record server =
  tools :: "(string \<times> handler) list"
  toolSchemas :: "(string \<times> jsval) list"
  toolDescriptions :: "(string \<times> jsval) list"

fun truthy :: "jsval \<Rightarrow> bool" where
  "truthy JUndefined = False"
| "truthy JNull = False"
| "truthy (JBool b) = b"
| "truthy (JNum t) = (t \<noteq> ''0'' \<and> t \<noteq> ''NaN'')"
| "truthy (JStr s) = (s \<noteq> [])"
| "truthy v = True"

text \<open>
  \<open>name.trim()\<close>: the white space and line terminators that the language strips at both
  ends, among the code units below 256: tab, line feed, vertical tab, form feed, carriage
  return, space and the no-break space U+00A0.
\<close>

definition is_space :: "char \<Rightarrow> bool" where
  "is_space c =
     (c \<in> set [CHR '' '', CHR 0x09, CHR 0x0A, CHR 0x0B, CHR 0x0C, CHR 0x0D, CHR 0xA0])"

definition js_trim :: "string \<Rightarrow> string" where
  "js_trim s = rev (dropWhile is_space (rev (dropWhile is_space s)))"

definition map_has :: "('k \<times> 'v) list \<Rightarrow> 'k \<Rightarrow> bool" where
  "map_has m k = (k \<in> set (map fst m))"

definition map_keys :: "('k \<times> 'v) list \<Rightarrow> 'k list" where
  "map_keys m = map fst m"

definition map_get :: "(string \<times> jsval) list \<Rightarrow> string \<Rightarrow> jsval" where
  "map_get m k = (case map_of m k of Some v \<Rightarrow> v | None \<Rightarrow> JUndefined)"

text \<open>
  \<open>registerTool(name, handler, description, schema = null)\<close>. The handler argument is
  \<open>Inr h\<close> for a function and \<open>Inl v\<close> for any other value. Every \<open>throw\<close> precedes the
  first write, so a throwing call returns the server it was given.
\<close>

definition registerTool ::
  "server \<Rightarrow> jsval \<Rightarrow> jsval + handler \<Rightarrow> jsval \<Rightarrow> jsval \<Rightarrow> (jsval + unit) \<times> server" where
  "registerTool srv name handler description schema0 =
     (let schema = (if schema0 = JUndefined then JNull else schema0) in
      if \<not> is_string name \<or> js_trim (string_of name) = []
      then (Inl (new_Error ''Nazwa narzedzia musi byc niepustym ciagiem znakow''), srv)
      else case handler of
          Inl v \<Rightarrow> (Inl (new_Error ''Handler narzedzia musi byc funkcja''), srv)
        | Inr h \<Rightarrow>
            if \<not> is_string description
            then (Inl (new_Error ''Opis narzedzia musi byc ciagiem znakow''), srv)
            else if map_has (tools srv) (string_of name)
            then (Inl (new_Error (''Narzedzie o nazwie '' @ dq @ string_of name @ dq
                                   @ '' jest juz zarejestrowane'')), srv)
            else (Inr (),
                  srv\<lparr>tools := AList.update (string_of name) h (tools srv),
                      toolDescriptions :=
                        AList.update (string_of name) description (toolDescriptions srv),
                      toolSchemas :=
                        (if truthy schema
                         then AList.update (string_of name) schema (toolSchemas srv)
                         else toolSchemas srv)\<rparr>))"

text \<open>\<open>_registerSystemTools\<close>: the second call runs only if the first one returns.\<close>

definition registerSystemTools :: "server \<Rightarrow> (jsval + unit) \<times> server" where
  "registerSystemTools srv =
     (case registerTool srv (JStr ''system.getTools'') (Inr GetToolsHandler)
             (JStr ''Pobiera liste dostepnych narzedzi'') JUndefined of
        (Inl e, srv1) \<Rightarrow> (Inl e, srv1)
      | (Inr u, srv1) \<Rightarrow>
          registerTool srv1 (JStr ''system.ping'') (Inr PingHandler)
            (JStr ''Sprawdza status serwera'') JUndefined)"

text \<open>The constructor: three empty maps, then the built-in tools.\<close>

definition new_MCPServer :: server where
  "new_MCPServer =
     snd (registerSystemTools \<lparr>tools = [], toolSchemas = [], toolDescriptions = []\<rparr>)"

text \<open>The servers that the constructor and calls of \<open>registerTool\<close> can produce.\<close>

inductive reachable :: "server \<Rightarrow> bool" where
  start: "reachable new_MCPServer"
| register:
    "reachable srv \<Longrightarrow> reachable (snd (registerTool srv name handler description schema))"

definition starts_with :: "string \<Rightarrow> string \<Rightarrow> bool" where
  "starts_with s p = (take (length p) s = p)"

text \<open>One catalog entry, \<open>{ name, description, schema }\<close>, as both listings build it.\<close>

definition tool_entry :: "server \<Rightarrow> string \<Rightarrow> jsval" where
  "tool_entry srv name =
     JObj [(''name'', JStr name),
           (''description'', map_get (toolDescriptions srv) name),
           (''schema'', (let s = map_get (toolSchemas srv) name
                         in if truthy s then s else JNull))]"

text \<open>The body that \<open>GET /tools\<close> sends: \<open>res.json({ tools })\<close>.\<close>

definition get_tools_route :: "server \<Rightarrow> jsval" where
  "get_tools_route srv =
     JObj [(''tools'', JArr (map (tool_entry srv) (map_keys (tools srv))))]"

text \<open>The handler registered as \<open>system.getTools\<close>.\<close>

definition system_getTools :: "server \<Rightarrow> jsval" where
  "system_getTools srv =
     JObj [(''tools'',
            JArr (map (tool_entry srv)
                   (filter (\<lambda>name. \<not> starts_with name ''system.'') (map_keys (tools srv)))))]"

text \<open>
  The handler registered as \<open>system.ping\<close>; \<open>now\<close> is what \<open>Date.now()\<close> reads, a count
  of milliseconds of at most 16 digits, whose text is its decimal digits.
\<close>

definition system_ping :: "int \<Rightarrow> jsval" where
  "system_ping now =
     JObj [(''timestamp'', JNum (show_int now)), (''status'', JStr ''active''),
           (''version'', JStr ''1.0'')]"

fun invoke :: "server \<Rightarrow> int \<Rightarrow> handler \<Rightarrow> jsval \<Rightarrow> jsval + jsval" where
  "invoke srv now GetToolsHandler parameters = Inr (system_getTools srv)"
| "invoke srv now PingHandler parameters = Inr (system_ping now)"
| "invoke srv now (ToolHandler f) parameters = f parameters"

text \<open>
  \<open>handleRequest\<close>. The result pairs the names of the handlers that were called with
  the outcome of the call: \<open>Inr\<close> the returned envelope, \<open>Inl\<close> a value thrown to the
  caller. The three blocks of the source are kept apart: the inner \<open>try\<close> with its
  \<open>catch (toolError)\<close>, the outer \<open>try\<close> body, and the outer \<open>catch (error)\<close>.
\<close>

text \<open>
  Both \<open>catch\<close> blocks read \<open>.message\<close> of what they caught and put it into a template
  literal: the read throws on \<open>undefined\<close> and \<open>null\<close>, the conversion throws when the
  message's own conversion does.
\<close>

definition message_text :: "string \<Rightarrow> jsval \<Rightarrow> jsval + string" where
  "message_text prefix caught =
     (case get_member caught ''message'' of
        Inl e \<Rightarrow> Inl e
      | Inr m \<Rightarrow> interpolate prefix m)"

definition catch_toolError :: "jsval \<Rightarrow> jsval + jsval" where
  "catch_toolError toolError =
     (case message_text ''Blad podczas wykonywania narzedzia: '' toolError of
        Inl e \<Rightarrow> Inl e
      | Inr txt \<Rightarrow> createErrorResponse (JStr txt))"

definition run_tool :: "server \<Rightarrow> int \<Rightarrow> handler \<Rightarrow> jsval \<Rightarrow> jsval + jsval" where
  "run_tool srv now toolHandler parameters =
     (case invoke srv now toolHandler parameters of
        Inl toolError \<Rightarrow> catch_toolError toolError
      | Inr result \<Rightarrow>
          (case createSuccessResponse result of
             Inl toolError \<Rightarrow> catch_toolError toolError
           | Inr response \<Rightarrow> Inr response))"

definition handleRequest_try ::
  "server \<Rightarrow> int \<Rightarrow> jsval \<Rightarrow> string list \<times> (jsval + jsval)" where
  "handleRequest_try srv now request =
     (let validationResult = validateRequest request in
      if validationResult \<noteq> JBool True
      then ([], case interpolate ''Nieprawidlowe zadanie: '' validationResult of
                  Inl e \<Rightarrow> Inl e
                | Inr txt \<Rightarrow> createErrorResponse (JStr txt))
      else case get_member request ''action'' of
          Inl e \<Rightarrow> ([], Inl e)
        | Inr action \<Rightarrow>
           (case get_member action ''name'' of
              Inl e \<Rightarrow> ([], Inl e)
            | Inr name \<Rightarrow>
               (case get_member action ''parameters'' of
                  Inl e \<Rightarrow> ([], Inl e)
                | Inr parameters \<Rightarrow>
                   if \<not> (is_string name \<and> map_has (tools srv) (string_of name))
                   then ([], case interpolate ''Nieznane narzedzie: '' name of
                               Inl e \<Rightarrow> Inl e
                             | Inr txt \<Rightarrow> createErrorResponse (JStr txt))
                   else (case map_of (tools srv) (string_of name) of
                           Some toolHandler \<Rightarrow>
                             ([string_of name], run_tool srv now toolHandler parameters)
                         | None \<Rightarrow>
                             ([], catch_toolError
                                    (JError ''TypeError'' ''toolHandler is not a function''))))))"

definition handleRequest ::
  "server \<Rightarrow> int \<Rightarrow> jsval \<Rightarrow> string list \<times> (jsval + jsval)" where
  "handleRequest srv now request =
     (case handleRequest_try srv now request of
        (called, Inr response) \<Rightarrow> (called, Inr response)
      | (called, Inl error) \<Rightarrow>
          (called,
           case message_text ''Nieoczekiwany blad: '' error of
             Inl e \<Rightarrow> Inl e
           | Inr txt \<Rightarrow> createErrorResponse (JStr txt)))"

text \<open>
  A thrown value that a \<open>catch\<close> block of \<open>handleRequest\<close> can report: its message reads
  and converts, or the failure of that is itself a value whose message reads and
  converts.
\<close>

definition reportable :: "jsval \<Rightarrow> bool" where
  "reportable caught =
     (case message_text [] caught of
        Inr txt \<Rightarrow> True
      | Inl e \<Rightarrow> (case message_text [] e of Inr txt \<Rightarrow> True | Inl e' \<Rightarrow> False))"

section \<open>Orchestrator (mcp-agent.js)\<close>

text \<open>
  The repository holds two variants of \<open>MCPAgent\<close>. Their \<open>processUserQuery\<close>,
  \<open>_executePlan\<close> and \<open>_addToConversation\<close> are the same text, so one model serves both.
\<close>

record turn =
  role :: string
  content :: jsval
  timestamp :: int

record agent =
  maxRetries :: int
  conversations :: "turn list"

text \<open>The constructor: \<open>options.maxRetries || 3\<close>, and an empty history.\<close>

definition new_MCPAgent :: "int option \<Rightarrow> agent" where
  "new_MCPAgent opt =
     \<lparr>maxRetries = (case opt of None \<Rightarrow> 3 | Some n \<Rightarrow> if n = 0 then 3 else n),
      conversations = []\<rparr>"

text \<open>\<open>_addToConversation\<close>: \<open>push\<close>, then one \<open>shift\<close> if more than 20 turns are held.\<close>

definition addToConversation :: "agent \<Rightarrow> string \<Rightarrow> jsval \<Rightarrow> int \<Rightarrow> agent" where
  "addToConversation a r c now =
     (let pushed = conversations a @ [\<lparr>role = r, content = c, timestamp = now\<rparr>]
      in a\<lparr>conversations := (if length pushed > 20 then tl pushed else pushed)\<rparr>)"

definition resetContext :: "agent \<Rightarrow> agent" where
  "resetContext a = a\<lparr>conversations := []\<rparr>"

record step =
  action :: jsval
  parameters :: jsval


text \<open>An entry of the result sequence: \<open>{ action, parameters, result }\<close>.\<close>

record step_result = step +
  result :: jsval







text \<open>
  \<open>processUserQuery\<close>. The four stages between the two appends call the completion
  service and the tool client; each is a function of the state \<open>'w\<close> of that outside
  world and ends by throwing an \<open>Error\<close> (\<open>Inl\<close> its message) or by returning. None of
  them touches the history. \<open>clock\<close> is what \<open>Date.now()\<close> reads.
\<close>

record ('w, 'a, 'p, 'r) stages =
  analyzeUserQuery :: "jsval \<Rightarrow> 'w \<Rightarrow> (string + 'a) \<times> 'w"
  generatePlan :: "'a \<Rightarrow> 'w \<Rightarrow> (string + 'p) \<times> 'w"
  runPlan :: "'p \<Rightarrow> 'w \<Rightarrow> (string + 'r) \<times> 'w"
  generateUserResponse :: "jsval \<Rightarrow> 'r \<Rightarrow> 'w \<Rightarrow> (string + string) \<times> 'w"
  clock :: "'w \<Rightarrow> int"

definition run_stages ::
  "('w, 'a, 'p, 'r) stages \<Rightarrow> jsval \<Rightarrow> 'w \<Rightarrow> (string + string) \<times> 'w" where
  "run_stages env userQuery w =
     (case analyzeUserQuery env userQuery w of
        (Inl msg, w1) \<Rightarrow> (Inl msg, w1)
      | (Inr taskAnalysis, w1) \<Rightarrow>
         (case generatePlan env taskAnalysis w1 of
            (Inl msg, w2) \<Rightarrow> (Inl msg, w2)
          | (Inr pl, w2) \<Rightarrow>
             (case runPlan env pl w2 of
                (Inl msg, w3) \<Rightarrow> (Inl msg, w3)
              | (Inr results, w3) \<Rightarrow> generateUserResponse env userQuery results w3)))"

text \<open>
  What the caller gets is a string either way; the constructor records which \<open>return\<close>
  produced it, the one of the \<open>try\<close> block or the one of the \<open>catch\<close> block.
\<close>

datatype reply = Response string | ErrorMessage string

definition processUserQuery ::
  "('w, 'a, 'p, 'r) stages \<Rightarrow> agent \<Rightarrow> jsval \<Rightarrow> 'w \<Rightarrow> reply \<times> agent \<times> 'w" where
  "processUserQuery env a userQuery w =
     (let a1 = addToConversation a ''user'' userQuery (clock env w)
      in case run_stages env userQuery w of
           (Inr response, w') \<Rightarrow>
             (Response response,
              addToConversation a1 ''assistant'' (JStr response) (clock env w'), w')
         | (Inl msg, w') \<Rightarrow>
             (ErrorMessage (''Wystapil blad podczas przetwarzania zapytania: '' @ msg), a1, w'))"



text \<open>A sequence of appends, each with its role, content and clock reading.\<close>

fun append_turns :: "agent \<Rightarrow> turn list \<Rightarrow> agent" where
  "append_turns a [] = a"
| "append_turns a (t # ts) =
     append_turns (addToConversation a (role t) (content t) (timestamp t)) ts"

section \<open>Example data\<close>



definition failing_stages :: "(unit, unit, unit, unit) stages" where
  "failing_stages =
     \<lparr>analyzeUserQuery = (\<lambda>q w. (Inl ''boom'', w)),
      generatePlan = (\<lambda>t w. (Inr (), w)),
      runPlan = (\<lambda>pl w. (Inr (), w)),
      generateUserResponse = (\<lambda>q rs w. (Inr ''done'', w)),
      clock = (\<lambda>w. 7)\<rparr>"

definition returning_stages :: "(unit, unit, unit, unit) stages" where
  "returning_stages =
     \<lparr>analyzeUserQuery = (\<lambda>q w. (Inr (), w)),
      generatePlan = (\<lambda>t w. (Inr (), w)),
      runPlan = (\<lambda>pl w. (Inr (), w)),
      generateUserResponse = (\<lambda>q rs w. (Inr ''done'', w)),
      clock = (\<lambda>w. 7)\<rparr>"

text \<open>
  A handler that throws an object whose message throws \<open>null\<close> when converted to a
  string, \<open>{ message: { toString() { throw null } } }\<close>, a server that has it registered
  as \<open>t\<close>, and a request for \<open>t\<close>.
\<close>

definition hostile_handler :: handler where
  "hostile_handler = ToolHandler (\<lambda>p. Inl (JObj [(''message'', JCustom (Inl JNull))]))"

definition hostile_server :: server where
  "hostile_server =
     snd (registerTool new_MCPServer (JStr ''t'') (Inr hostile_handler) (JStr ''throws'')
            JUndefined)"

definition request_t :: jsval where
  "request_t = JObj [(''version'', JStr ''1.0''), (''action'', JObj [(''name'', JStr ''t'')])]"

definition demo_turn :: turn where
  "demo_turn = \<lparr>role = ''user'', content = JStr ''hi'', timestamp = 0\<rparr>"

definition full_agent :: agent where
  "full_agent = append_turns (new_MCPAgent None) (replicate 20 demo_turn)"

section \<open>Envelope codec: what the constructors and validators accept\<close>

lemmas schema_simps = requestSchema_def responseSchema_def Joi_object_keys_def Joi_string_def
  Joi_when_def Joi_forbidden_def Joi_any_def Joi_object_def joi_default_def

lemma validate_error_envelope:
  "validate responseSchema JUndefined []
     (JObj [(''version'', JStr ''1.0''), (''status'', JStr ''error''), (''error'', e)])
   = (case e of
        JStr m \<Rightarrow> if m = [] then Some (JoiError StringEmpty [''error'']) else None
      | JUndefined \<Rightarrow> Some (JoiError AnyRequired [''error''])
      | _ \<Rightarrow> Some (JoiError StringBase [''error'']))"
  by (cases e) (simp_all add: schema_simps)

lemma validate_success_envelope:
  "validate responseSchema JUndefined []
     (JObj [(''version'', JStr ''1.0''), (''status'', JStr ''success''), (''result'', r)])
   = (if r = JUndefined then Some (JoiError AnyRequired [''result''])
      else if is_object r then None else Some (JoiError ObjectBase [''result'']))"
  by (cases r) (simp_all add: schema_simps)

lemma createErrorResponse_nonempty:
  "m \<noteq> [] \<Longrightarrow> createErrorResponse (JStr m) = Inr (error_envelope m)"
  by (simp add: createErrorResponse_def validate_error_envelope error_envelope_def)

lemma validateResponse_error_envelope:
  "m \<noteq> [] \<Longrightarrow> validateResponse (error_envelope m) = JBool True"
  by (simp add: validateResponse_def validate_error_envelope error_envelope_def)

lemma createErrorResponse_throws:
  "\<not> (is_string e \<and> e \<noteq> JStr []) \<Longrightarrow> isl (createErrorResponse e)"
  by (cases e) (simp_all add: createErrorResponse_def validate_error_envelope)

lemma createSuccessResponse_object:
  "is_object r \<Longrightarrow> createSuccessResponse r = Inr (success_envelope r)"
  by (cases r)
     (simp_all add: createSuccessResponse_def validate_success_envelope success_envelope_def)

lemma validateResponse_success_envelope:
  "is_object r \<Longrightarrow> validateResponse (success_envelope r) = JBool True"
  by (cases r)
     (simp_all add: validateResponse_def validate_success_envelope success_envelope_def)

lemma createSuccessResponse_throws:
  "\<not> is_object r \<Longrightarrow> \<exists>m. createSuccessResponse r = Inl (JError ''Error'' m)"
  by (cases r)
     (simp_all add: createSuccessResponse_def validate_success_envelope new_Error_def)

text \<open>
  Claim C7, as amended. \<open>createSuccessResponse\<close> returns the success envelope, which
  \<open>validateResponse\<close> accepts, exactly when the result is an object (not \<open>null\<close>, not an
  array, not a primitive); \<open>createErrorResponse\<close> returns the error envelope, which
  \<open>validateResponse\<close> accepts, exactly when the message is a non-empty string. On every
  other argument each of them throws: both validate what they built and throw on a
  validation error.
\<close>

theorem create_response_valid_iff:
  "(is_object r \<longrightarrow>
      createSuccessResponse r = Inr (success_envelope r)
      \<and> validateResponse (success_envelope r) = JBool True)
   \<and> (\<not> is_object r \<longrightarrow> isl (createSuccessResponse r))
   \<and> (m \<noteq> [] \<longrightarrow>
      createErrorResponse (JStr m) = Inr (error_envelope m)
      \<and> validateResponse (error_envelope m) = JBool True)
   \<and> (\<not> (is_string e \<and> e \<noteq> JStr []) \<longrightarrow> isl (createErrorResponse e))"
proof (intro conjI impI)
  assume "\<not> is_object r"
  then obtain msg where "createSuccessResponse r = Inl (JError ''Error'' msg)"
    using createSuccessResponse_throws by blast
  then show "isl (createSuccessResponse r)" by simp
qed (simp_all add: createSuccessResponse_object validateResponse_success_envelope
      createErrorResponse_nonempty validateResponse_error_envelope createErrorResponse_throws)

theorem create_response_valid_iff_witness:
  "is_object (JObj [(''n'', JNum ''1'')])
   \<and> createSuccessResponse (JObj [(''n'', JNum ''1'')]) = Inr (success_envelope (JObj [(''n'', JNum ''1'')]))
   \<and> validateResponse (success_envelope (JObj [(''n'', JNum ''1'')])) = JBool True
   \<and> \<not> is_object (JArr []) \<and> isl (createSuccessResponse (JArr []))
   \<and> ''boom'' \<noteq> []
   \<and> createErrorResponse (JStr ''boom'') = Inr (error_envelope ''boom'')
   \<and> validateResponse (error_envelope ''boom'') = JBool True
   \<and> \<not> (is_string (JNum ''5'') \<and> JNum ''5'' \<noteq> JStr []) \<and> isl (createErrorResponse (JNum ''5''))"
  using create_response_valid_iff [of "JObj [(''n'', JNum ''1'')]" "''boom''" "JNum ''5''"]
    create_response_valid_iff [of "JArr []" "''boom''" "JNum ''5''"]
  by simp

text \<open>
  The constructors throw on a string, an array and \<open>null\<close> as result, and on the empty
  string as message.
\<close>

theorem create_response_counterexample:
  "isl (createSuccessResponse (JStr ''abc'')) \<and> isl (createSuccessResponse (JArr []))
   \<and> isl (createSuccessResponse JNull) \<and> isl (createErrorResponse (JStr ''''))"
  by (simp add: createSuccessResponse_def createErrorResponse_def validate_success_envelope
      validate_error_envelope)

lemma validate_name:
  "validate (Schema StringT None Required []) parent path v = None \<Longrightarrow>
   is_string v \<and> v \<noteq> JStr []"
  by (cases v) (simp_all split: if_splits)

lemma validate_action:
  assumes "validate (Schema ObjectT (Some [(''name'', Schema StringT None Required []),
             (''parameters'', Schema ObjectT None Optional [])]) Required []) parent path a = None"
  shows "is_object a \<and> is_string (read_prop a ''name'') \<and> read_prop a ''name'' \<noteq> JStr []"
proof -
  from assms have obj: "is_object a"
    by (simp split: if_splits)
  from assms have "validate (Schema StringT None Required []) a (path @ [''name''])
                     (read_prop a ''name'') = None"
    by (simp split: if_splits option.splits)
  from validate_name[OF this] obj show ?thesis by simp
qed

lemma validateRequest_ok_conforming:
  assumes "validateRequest request = JBool True" and "request \<noteq> JUndefined"
  shows "conforming request"
proof -
  from assms have v: "validate requestSchema JUndefined [] request = None"
    by (simp add: validateRequest_def split: option.splits)
  with assms(2) have obj: "is_object request"
    by (simp add: schema_simps split: if_splits)
  from v assms(2) have ver: "read_prop request ''version'' = JStr ''1.0''"
    by (simp add: schema_simps split: if_splits option.splits)
  from v assms(2) have
    "validate (Schema ObjectT (Some [(''name'', Schema StringT None Required []),
             (''parameters'', Schema ObjectT None Optional [])]) Required []) request [''action'']
             (read_prop request ''action'') = None"
    by (simp add: schema_simps split: if_splits option.splits)
  from validate_action[OF this] obj ver show ?thesis
    by (simp add: conforming_def)
qed

text \<open>
  Every value other than \<open>undefined\<close> that is not a conforming request gets a validation
  message.
\<close>

lemma validateRequest_rejects_defined:
  "request \<noteq> JUndefined \<Longrightarrow> \<not> conforming request \<Longrightarrow>
   \<exists>msg. validateRequest request = JStr msg"
  using validateRequest_ok_conforming[of request]
  by (cases "validate requestSchema JUndefined [] request") (auto simp: validateRequest_def)

text \<open>
  Claim C9, at the input where the code departs from it. \<open>undefined\<close> is not a conforming
  request, and \<open>validateRequest\<close> answers \<open>true\<close> for it: the top-level schema is not
  marked \<open>required\<close>, and the library takes an absent value as valid.
\<close>

theorem validateRequest_undefined_accepted:
  "\<not> conforming JUndefined \<and> validateRequest JUndefined = JBool True"
  by (simp add: conforming_def validateRequest_def schema_simps)

section \<open>Dispatcher\<close>

lemma get_member_throws_error:
  "get_member v k = Inl e \<Longrightarrow> \<exists>n m. e = JError n m"
  by (auto simp: get_member_def split: if_splits)

lemma get_member_error_message:
  "get_member (JError n m) ''message'' = Inr (JStr m)"
  by (simp add: get_member_def)

lemma createErrorResponse_prefixed:
  "createErrorResponse (JStr (c # cs)) = Inr (error_envelope (c # cs))"
  by (simp add: createErrorResponse_nonempty)

lemma validateResponse_prefixed:
  "validateResponse (error_envelope (c # cs)) = JBool True"
  by (simp add: validateResponse_error_envelope)

lemma response_envelope_error:
  "response_envelope (error_envelope (c # cs))"
  by (auto simp: response_envelope_def)

lemma response_envelope_success:
  "is_object r \<Longrightarrow> response_envelope (success_envelope r)"
  by (auto simp: response_envelope_def)

lemma response_envelope_valid:
  "response_envelope resp \<Longrightarrow> validateResponse resp = JBool True"
  by (auto simp: response_envelope_def validateResponse_error_envelope
      validateResponse_success_envelope)

lemma message_text_prefix:
  "message_text p caught =
     (case message_text [] caught of Inl e \<Rightarrow> Inl e | Inr s \<Rightarrow> Inr (p @ s))"
  by (auto simp: message_text_def interpolate_def split: sum.splits)

lemma message_text_error:
  "message_text p (JError n m) = Inr (p @ m)"
  by (simp add: message_text_def interpolate_def get_member_def)

lemma validateRequest_bool_or_string:
  "validateRequest request = JBool True \<or> (\<exists>m. validateRequest request = JStr m)"
  by (simp add: validateRequest_def split: option.splits)

text \<open>
  A block of \<open>handleRequest\<close> ends well when it returns a response envelope or throws a
  value whose message reads and converts, which the \<open>catch\<close> around it turns into one.
\<close>

lemma catch_toolError_cases:
  assumes "reportable toolError"
  shows "(\<exists>resp. catch_toolError toolError = Inr resp \<and> response_envelope resp)
     \<or> (\<exists>e s. catch_toolError toolError = Inl e \<and> message_text [] e = Inr s)"
proof (cases "message_text [] toolError")
  case (Inl e)
  with assms obtain s where "message_text [] e = Inr s"
    by (auto simp: reportable_def split: sum.splits)
  with Inl show ?thesis
    by (simp add: catch_toolError_def message_text_prefix[of "_ # _"])
next
  case (Inr s)
  then show ?thesis
    by (simp add: catch_toolError_def message_text_prefix[of "_ # _"]
        createErrorResponse_prefixed response_envelope_error)
qed

lemma reportable_error:
  "reportable (JError n m)"
  by (simp add: reportable_def message_text_error)

lemma run_tool_cases:
  assumes "\<forall>e. invoke srv now h ps = Inl e \<longrightarrow> reportable e"
  shows "(\<exists>resp. run_tool srv now h ps = Inr resp \<and> response_envelope resp)
     \<or> (\<exists>e s. run_tool srv now h ps = Inl e \<and> message_text [] e = Inr s)"
proof (cases "invoke srv now h ps")
  case (Inl toolError)
  with assms have "reportable toolError" by simp
  from catch_toolError_cases[OF this] Inl show ?thesis
    by (simp add: run_tool_def)
next
  case (Inr r)
  show ?thesis
  proof (cases "is_object r")
    case True
    with Inr show ?thesis
      by (simp add: run_tool_def createSuccessResponse_object response_envelope_success)
  next
    case False
    then obtain m where "createSuccessResponse r = Inl (JError ''Error'' m)"
      using createSuccessResponse_throws by blast
    with Inr catch_toolError_cases[OF reportable_error, of "''Error''" m] show ?thesis
      by (simp add: run_tool_def)
  qed
qed

lemma get_member_object:
  "is_object v \<Longrightarrow> get_member v k = Inr (read_prop v k)"
  by (cases v) (simp_all add: get_member_def)

lemma handleRequest_try_cases:
  assumes "\<forall>h ps e. h \<in> snd ` set (tools srv) \<longrightarrow> invoke srv now h ps = Inl e \<longrightarrow> reportable e"
  shows "(\<exists>resp. snd (handleRequest_try srv now request) = Inr resp \<and> response_envelope resp)
     \<or> (\<exists>e s. snd (handleRequest_try srv now request) = Inl e \<and> message_text [] e = Inr s)"
proof (cases "validateRequest request = JBool True")
  case False
  with validateRequest_bool_or_string[of request] obtain m
    where "validateRequest request = JStr m" by blast
  then show ?thesis
    by (simp add: handleRequest_try_def interpolate_def createErrorResponse_prefixed
        response_envelope_error)
next
  case True
  show ?thesis
  proof (cases "request = JUndefined")
    case undef: True
    with True show ?thesis
      by (simp add: handleRequest_try_def get_member_def message_text_error)
  next
    case False
    from validateRequest_ok_conforming[OF True False]
    have obj: "is_object request" and act: "is_object (read_prop request ''action'')"
      and nm: "is_string (read_prop (read_prop request ''action'') ''name'')"
      by (simp_all add: conforming_def)
    from nm obtain n where n: "read_prop (read_prop request ''action'') ''name'' = JStr n"
      by (cases "read_prop (read_prop request ''action'') ''name''") simp_all
    show ?thesis
    proof (cases "map_has (tools srv) n")
      case unknown: False
      with True obj act n show ?thesis
        by (simp add: handleRequest_try_def get_member_object interpolate_def
            createErrorResponse_prefixed response_envelope_error)
    next
      case has: True
      show ?thesis
      proof (cases "map_of (tools srv) n")
        case None
        with True obj act n has
          catch_toolError_cases[OF reportable_error, of "''TypeError''"
            "''toolHandler is not a function''"]
        show ?thesis
          by (simp add: handleRequest_try_def get_member_object)
      next
        case (Some h)
        then have "h \<in> snd ` set (tools srv)"
          by (auto dest: map_of_SomeD intro: rev_image_eqI)
        with assms have "\<forall>e. invoke srv now h (read_prop (read_prop request ''action'')
            ''parameters'') = Inl e \<longrightarrow> reportable e"
          by blast
        from run_tool_cases[OF this] True obj act n has Some show ?thesis
          by (simp add: handleRequest_try_def get_member_object)
      qed
    qed
  qed
qed

text \<open>
  When the registered handlers throw only values that a \<open>catch\<close> block can report (any
  \<open>Error\<close> object is one), \<open>handleRequest\<close> returns for every request value, and what it
  returns is a response envelope, which \<open>validateResponse\<close> accepts. A handler may still
  return any value at all.
\<close>

lemma handleRequest_returns_envelope:
  assumes "\<forall>h ps e. h \<in> snd ` set (tools srv) \<longrightarrow> invoke srv now h ps = Inl e \<longrightarrow> reportable e"
  shows "\<exists>response. snd (handleRequest srv now request) = Inr response
           \<and> response_envelope response \<and> validateResponse response = JBool True"
proof -
  obtain called r where t: "handleRequest_try srv now request = (called, r)"
    by (cases "handleRequest_try srv now request")
  from handleRequest_try_cases[OF assms, of request] t
  consider (returned) resp where "r = Inr resp" "response_envelope resp"
    | (thrown) e s where "r = Inl e" "message_text [] e = Inr s"
    by auto
  then show ?thesis
  proof cases
    case returned
    with t show ?thesis
      by (simp add: handleRequest_def response_envelope_valid)
  next
    case thrown
    with t show ?thesis
      by (simp add: handleRequest_def message_text_prefix[of "_ # _"]
          createErrorResponse_prefixed response_envelope_error validateResponse_prefixed)
  qed
qed

lemma new_MCPServer_eq:
  "new_MCPServer =
     \<lparr>tools = [(''system.getTools'', GetToolsHandler), (''system.ping'', PingHandler)],
      toolSchemas = [],
      toolDescriptions = [(''system.getTools'', JStr ''Pobiera liste dostepnych narzedzi''),
                          (''system.ping'', JStr ''Sprawdza status serwera'')]\<rparr>"
  by (simp add: new_MCPServer_def registerSystemTools_def registerTool_def js_trim_def
      is_space_def map_has_def)

lemma hostile_server_eq:
  "hostile_server =
     \<lparr>tools = [(''system.getTools'', GetToolsHandler), (''system.ping'', PingHandler),
               (''t'', hostile_handler)],
      toolSchemas = [],
      toolDescriptions = [(''system.getTools'', JStr ''Pobiera liste dostepnych narzedzi''),
                          (''system.ping'', JStr ''Sprawdza status serwera''),
                          (''t'', JStr ''throws'')]\<rparr>"
  by (simp add: hostile_server_def new_MCPServer_eq registerTool_def js_trim_def
      is_space_def map_has_def)

text \<open>
  Claim C1, at the input where the code departs from it. A handler is registered that
  throws \<open>{ message: { toString() { throw null } } }\<close>. On a well-formed request for it,
  the inner \<open>catch\<close> throws \<open>null\<close> while it builds its message, the outer \<open>catch\<close> then
  reads \<open>.message\<close> of \<open>null\<close>, and \<open>handleRequest\<close> throws that \<open>TypeError\<close> to its
  caller instead of returning an envelope.
\<close>

theorem handleRequest_throws_on_hostile_message:
  "validateRequest request_t = JBool True
   \<and> handleRequest hostile_server 0 request_t =
       ([''t''],
        Inl (JError ''TypeError''
               (''Cannot read properties of null (reading '' @ sq @ ''message'' @ sq @ '')'')))"
  by (simp add: handleRequest_def handleRequest_try_def hostile_server_eq request_t_def
      validateRequest_def schema_simps get_member_def map_has_def run_tool_def
      hostile_handler_def catch_toolError_def message_text_def interpolate_def)

lemma read_prop_string_member:
  "read_prop v k = JStr s \<Longrightarrow> get_member v k' = Inr (read_prop v k')"
  by (cases v) (auto simp: get_member_def)

lemma read_prop_nested_member:
  "read_prop (read_prop v k) k' = JStr s \<Longrightarrow> get_member v k = Inr (read_prop v k)"
  by (cases v) (auto simp: get_member_def)

text \<open>
  Claim C4. A request that \<open>validateRequest\<close> accepts and whose \<open>action.name\<close> is a name
  that the registry does not hold is answered with the error envelope whose message is
  \<open>Nieznane narzedzie: \<close> followed by that very name, and no handler is called on the
  way.
\<close>

theorem handleRequest_unknown_tool:
  assumes "validateRequest request = JBool True"
    and "read_prop (read_prop request ''action'') ''name'' = JStr nm"
    and "\<not> map_has (tools srv) nm"
  shows "handleRequest srv now request =
           ([], Inr (JObj [(''version'', JStr ''1.0''), (''status'', JStr ''error''),
                           (''error'', JStr (''Nieznane narzedzie: '' @ nm))]))"
  using assms read_prop_nested_member[OF assms(2)]
    read_prop_string_member[OF assms(2), of "''name''"]
    read_prop_string_member[OF assms(2), of "''parameters''"]
  by (simp add: handleRequest_def handleRequest_try_def interpolate_def
      createErrorResponse_prefixed error_envelope_def)

theorem handleRequest_unknown_tool_witness:
  "validateRequest (JObj [(''version'', JStr ''1.0''),
                          (''action'', JObj [(''name'', JStr ''doesNotExist'')])]) = JBool True
   \<and> read_prop (read_prop (JObj [(''version'', JStr ''1.0''),
                          (''action'', JObj [(''name'', JStr ''doesNotExist'')])]) ''action'')
        ''name'' = JStr ''doesNotExist''
   \<and> \<not> map_has (tools new_MCPServer) ''doesNotExist''
   \<and> handleRequest new_MCPServer 0
        (JObj [(''version'', JStr ''1.0''),
               (''action'', JObj [(''name'', JStr ''doesNotExist'')])]) =
       ([], Inr (JObj [(''version'', JStr ''1.0''), (''status'', JStr ''error''),
                       (''error'', JStr ''Nieznane narzedzie: doesNotExist'')]))"
proof -
  let ?req = "JObj [(''version'', JStr ''1.0''),
                    (''action'', JObj [(''name'', JStr ''doesNotExist'')])]"
  have v: "validateRequest ?req = JBool True"
    by (simp add: validateRequest_def schema_simps)
  have n: "read_prop (read_prop ?req ''action'') ''name'' = JStr ''doesNotExist''"
    by simp
  have h: "\<not> map_has (tools new_MCPServer) ''doesNotExist''"
    by (simp add: new_MCPServer_eq map_has_def)
  from handleRequest_unknown_tool[OF v n h, of 0] v n h show ?thesis
    by simp
qed

section \<open>Tool registry\<close>

lemma registerTool_throws_unchanged:
  "isl (fst (registerTool srv name handler description schema)) \<Longrightarrow>
   snd (registerTool srv name handler description schema) = srv"
  by (auto simp: registerTool_def Let_def split: sum.splits if_splits)

lemma registerTool_tools:
  "fst ` set (tools (snd (registerTool srv name handler description schema)))
     \<subseteq> fst ` set (tools srv) \<union> {n. name = JStr n \<and> js_trim n \<noteq> []}"
  by (cases name)
     (auto simp: registerTool_def Let_def AList.dom_update split: sum.splits if_splits)

lemma new_MCPServer_names:
  "n \<in> fst ` set (tools new_MCPServer) \<Longrightarrow> n = ''system.getTools'' \<or> n = ''system.ping''"
  by (auto simp: new_MCPServer_eq)

lemma system_names_nonblank:
  "js_trim ''system.getTools'' \<noteq> []" "js_trim ''system.ping'' \<noteq> []"
  by (simp_all add: js_trim_def is_space_def)

text \<open>Every name a reachable registry holds passed the name check: it is not blank.\<close>

lemma reachable_names_nonblank:
  "reachable srv \<Longrightarrow> n \<in> fst ` set (tools srv) \<Longrightarrow> js_trim n \<noteq> []"
proof (induction arbitrary: n rule: reachable.induct)
  case start
  from new_MCPServer_names[OF start] system_names_nonblank show ?case by metis
next
  case (register srv name handler description schema)
  from register.prems registerTool_tools[of srv name handler description schema]
  have "n \<in> fst ` set (tools srv) \<or> (name = JStr n \<and> js_trim n \<noteq> [])"
    by blast
  then show ?case
  proof
    assume "n \<in> fst ` set (tools srv)"
    then show ?thesis by (rule register.IH)
  next
    assume "name = JStr n \<and> js_trim n \<noteq> []"
    then show ?thesis by simp
  qed
qed

text \<open>
  Claim C5. In a registry reached from the constructor by calls of \<open>registerTool\<close>, a
  call of \<open>registerTool\<close> with a name it already holds throws and leaves the three maps
  as they were, whatever the other arguments are; and given a function as handler and a
  string as description, what it throws is the error saying that a tool of that name is
  already registered.
\<close>

theorem registerTool_duplicate:
  assumes "reachable srv" and "map_has (tools srv) nm"
  shows "registerTool srv (JStr nm) (Inr h) (JStr d) schema =
           (Inl (new_Error (''Narzedzie o nazwie '' @ dq @ nm @ dq
                            @ '' jest juz zarejestrowane'')), srv)
         \<and> isl (fst (registerTool srv (JStr nm) handler description schema))
         \<and> snd (registerTool srv (JStr nm) handler description schema) = srv"
proof -
  from assms have nb: "js_trim nm \<noteq> []"
    using reachable_names_nonblank[of srv nm] by (simp add: map_has_def)
  have thrown: "isl (fst (registerTool srv (JStr nm) handler description schema))"
    using assms(2) by (auto simp: registerTool_def Let_def split: sum.splits)
  from nb assms(2) thrown registerTool_throws_unchanged[OF thrown] show ?thesis
    by (simp add: registerTool_def Let_def)
qed

theorem registerTool_duplicate_witness:
  "reachable new_MCPServer \<and> map_has (tools new_MCPServer) ''system.ping''
   \<and> registerTool new_MCPServer (JStr ''system.ping'') (Inr (ToolHandler (\<lambda>p. Inr p)))
        (JStr ''again'') JUndefined =
       (Inl (JError ''Error''
               (''Narzedzie o nazwie '' @ dq @ ''system.ping'' @ dq
                @ '' jest juz zarejestrowane'')), new_MCPServer)
   \<and> isl (fst (registerTool new_MCPServer (JStr ''system.ping'') (Inl JNull) (JNum ''1'') JUndefined))
   \<and> snd (registerTool new_MCPServer (JStr ''system.ping'') (Inl JNull) (JNum ''1'') JUndefined)
       = new_MCPServer"
proof -
  have r: "reachable new_MCPServer" by (rule reachable.start)
  have h: "map_has (tools new_MCPServer) ''system.ping''"
    by (simp add: new_MCPServer_eq map_has_def)
  from registerTool_duplicate[OF r h, of "ToolHandler (\<lambda>p. Inr p)" "''again''" JUndefined
      "Inl JNull" "JNum ''1''"] r h
  show ?thesis by (simp add: new_Error_def)
qed

section \<open>Catalog\<close>

text \<open>
  The \<open>system.getTools\<close> tool lists exactly the registered names that do not start with
  \<open>system.\<close>, in registration order, each with its name, description and schema.
\<close>

lemma system_getTools_excludes_system:
  "system_getTools srv =
     JObj [(''tools'', JArr (map (tool_entry srv)
             (filter (\<lambda>n. \<not> starts_with n ''system.'') (map_keys (tools srv)))))]
   \<and> (\<forall>n \<in> set (filter (\<lambda>n. \<not> starts_with n ''system.'') (map_keys (tools srv))).
         \<not> starts_with n ''system.'')"
  by (simp add: system_getTools_def)

text \<open>
  Claim C8, at the input where the code departs from it. On a server that holds only the
  two built-in tools, the body sent by \<open>GET /tools\<close> lists both \<open>system.getTools\<close> and
  \<open>system.ping\<close>, while the \<open>system.getTools\<close> tool on the same server lists nothing:
  the route maps over all keys and has no filter on the \<open>system.\<close> prefix.
\<close>

theorem get_tools_route_lists_system_tools:
  "get_tools_route new_MCPServer =
     JObj [(''tools'',
            JArr [JObj [(''name'', JStr ''system.getTools''),
                        (''description'', JStr ''Pobiera liste dostepnych narzedzi''),
                        (''schema'', JNull)],
                  JObj [(''name'', JStr ''system.ping''),
                        (''description'', JStr ''Sprawdza status serwera''),
                        (''schema'', JNull)]])]
   \<and> system_getTools new_MCPServer = JObj [(''tools'', JArr [])]"
  by (simp add: get_tools_route_def system_getTools_def new_MCPServer_eq tool_entry_def
      map_keys_def map_get_def starts_with_def)

section \<open>Plan execution: the retry loop\<close>











section \<open>Plan execution: the result sequence\<close>









section \<open>Conversation context\<close>

lemma addToConversation_below:
  "length (conversations a) < 20 \<Longrightarrow>
   conversations (addToConversation a r c now)
     = conversations a @ [\<lparr>role = r, content = c, timestamp = now\<rparr>]"
  by (simp add: addToConversation_def Let_def)

lemma addToConversation_full:
  "length (conversations a) = 20 \<Longrightarrow>
   conversations (addToConversation a r c now)
     = tl (conversations a) @ [\<lparr>role = r, content = c, timestamp = now\<rparr>]"
  by (cases "conversations a") (simp_all add: addToConversation_def Let_def)

lemma addToConversation_length:
  "length (conversations a) \<le> 20 \<Longrightarrow>
   length (conversations (addToConversation a r c now)) = min 20 (length (conversations a) + 1)"
  by (simp add: addToConversation_def Let_def)

lemma addToConversation_drop:
  "length (conversations a) \<le> 20 \<Longrightarrow>
   conversations (addToConversation a (role t) (content t) (timestamp t))
     = drop (length (conversations a) + 1 - 20) (conversations a @ [t])"
proof (cases "length (conversations a) < 20")
  case True
  then show ?thesis by (simp add: addToConversation_below)
next
  case False
  assume "length (conversations a) \<le> 20"
  with False have full: "length (conversations a) = 20" by simp
  then obtain x xs where xs: "conversations a = x # xs"
    by (cases "conversations a") simp_all
  from full show ?thesis by (simp add: addToConversation_full xs)
qed

text \<open>After any appends, the history is the last 20 of all the turns, in their order.\<close>

lemma append_turns_drop:
  "length (conversations a) \<le> 20 \<Longrightarrow>
   conversations (append_turns a ts)
     = drop (length (conversations a) + length ts - 20) (conversations a @ ts)"
proof (induction ts arbitrary: a)
  case Nil
  then show ?case by simp
next
  case (Cons t ts)
  let ?a' = "addToConversation a (role t) (content t) (timestamp t)"
  have len: "length (conversations ?a') = min 20 (length (conversations a) + 1)"
    using Cons.prems by (rule addToConversation_length)
  then have le: "length (conversations ?a') \<le> 20" by simp
  have cv: "conversations ?a' = drop (length (conversations a) + 1 - 20) (conversations a @ [t])"
    using Cons.prems by (rule addToConversation_drop)
  have "conversations (append_turns a (t # ts)) = conversations (append_turns ?a' ts)"
    by simp
  also have "\<dots> = drop (length (conversations ?a') + length ts - 20) (conversations ?a' @ ts)"
    by (rule Cons.IH[OF le])
  also have "\<dots> = drop (length (conversations a) + length (t # ts) - 20) (conversations a @ t # ts)"
  proof (cases "length (conversations a) < 20")
    case True
    then show ?thesis by (simp add: cv len)
  next
    case False
    with Cons.prems have full: "length (conversations a) = 20" by simp
    then show ?thesis by (simp add: cv len)
  qed
  finally show ?case .
qed

text \<open>
  Claim C6. Whatever turns are appended to the history of a new agent, the history never
  holds more than 20 of them: it is the last 20 of the appended turns, in the order of
  their appends. An append to a history of 20 turns drops its first (oldest) turn, and
  only that one, and puts the new turn last; an append to a shorter history drops
  nothing.
\<close>

theorem conversation_capped_fifo:
  "length (conversations (append_turns (new_MCPAgent opt) ts)) \<le> 20
   \<and> conversations (append_turns (new_MCPAgent opt) ts) = drop (length ts - 20) ts
   \<and> (length (conversations a) = 20 \<longrightarrow>
        conversations (addToConversation a r c now)
          = tl (conversations a) @ [\<lparr>role = r, content = c, timestamp = now\<rparr>])
   \<and> (length (conversations a) < 20 \<longrightarrow>
        conversations (addToConversation a r c now)
          = conversations a @ [\<lparr>role = r, content = c, timestamp = now\<rparr>])"
proof -
  have "conversations (append_turns (new_MCPAgent opt) ts) = drop (length ts - 20) ts"
    using append_turns_drop[of "new_MCPAgent opt" ts] by (simp add: new_MCPAgent_def)
  then show ?thesis
    by (simp add: addToConversation_below addToConversation_full)
qed

lemma full_agent_conversations:
  "conversations full_agent = replicate 20 demo_turn"
  using append_turns_drop[of "new_MCPAgent None" "replicate 20 demo_turn"]
  by (simp add: full_agent_def new_MCPAgent_def)

theorem conversation_capped_fifo_witness:
  "length (conversations (append_turns (new_MCPAgent None) (replicate 21 demo_turn))) \<le> 20
   \<and> length (conversations full_agent) = 20
   \<and> conversations (addToConversation full_agent ''assistant'' (JStr ''new'') 9)
       = tl (conversations full_agent)
           @ [\<lparr>role = ''assistant'', content = JStr ''new'', timestamp = 9\<rparr>]
   \<and> length (conversations (new_MCPAgent None)) < 20
   \<and> conversations (addToConversation (new_MCPAgent None) ''user'' (JStr ''q'') 1)
       = conversations (new_MCPAgent None) @ [\<lparr>role = ''user'', content = JStr ''q'', timestamp = 1\<rparr>]"
  using conversation_capped_fifo[of None "replicate 21 demo_turn" full_agent
          "''assistant''" "JStr ''new''" 9]
    conversation_capped_fifo[of None "[]" "new_MCPAgent None" "''user''" "JStr ''q''" 1]
  by (simp add: full_agent_conversations new_MCPAgent_def)

section \<open>The query loop and the history\<close>

lemma run_stages_analyze_throws:
  "analyzeUserQuery env q w = (Inl msg, w1) \<Longrightarrow> run_stages env q w = (Inl msg, w1)"
  by (simp add: run_stages_def)

lemma run_stages_plan_throws:
  "analyzeUserQuery env q w = (Inr t, w1) \<Longrightarrow> generatePlan env t w1 = (Inl msg, w2) \<Longrightarrow>
   run_stages env q w = (Inl msg, w2)"
  by (simp add: run_stages_def)

lemma run_stages_execute_throws:
  "analyzeUserQuery env q w = (Inr t, w1) \<Longrightarrow> generatePlan env t w1 = (Inr pl, w2) \<Longrightarrow>
   runPlan env pl w2 = (Inl msg, w3) \<Longrightarrow> run_stages env q w = (Inl msg, w3)"
  by (simp add: run_stages_def)

lemma run_stages_respond:
  "analyzeUserQuery env q w = (Inr t, w1) \<Longrightarrow> generatePlan env t w1 = (Inr pl, w2) \<Longrightarrow>
   runPlan env pl w2 = (Inr rs, w3) \<Longrightarrow>
   run_stages env q w = generateUserResponse env q rs w3"
  by (simp add: run_stages_def)

text \<open>
  Claim C10, as amended. \<open>processUserQuery\<close> appends the user turn before any stage runs.
  When a stage throws, the error text is returned and no assistant turn is appended: the
  history is the old one with the user turn appended under the cap of 20. When all stages
  return, the assistant turn is appended after it in the same way. So the history grows
  by exactly one turn on failure if it held fewer than 20 turns, and by exactly two on
  success if it held fewer than 19; a history of 20 turns stays at 20, its oldest turns
  making room.
\<close>

theorem processUserQuery_history:
  "(fst (run_stages env q w) = Inl msg \<longrightarrow>
      fst (processUserQuery env a q w)
        = ErrorMessage (''Wystapil blad podczas przetwarzania zapytania: '' @ msg)
      \<and> fst (snd (processUserQuery env a q w)) = addToConversation a ''user'' q (clock env w)
      \<and> (length (conversations a) < 20 \<longrightarrow>
           length (conversations (fst (snd (processUserQuery env a q w))))
             = length (conversations a) + 1)
      \<and> (length (conversations a) = 20 \<longrightarrow>
           length (conversations (fst (snd (processUserQuery env a q w)))) = 20))
   \<and> (fst (run_stages env q w) = Inr response \<longrightarrow>
      fst (processUserQuery env a q w) = Response response
      \<and> fst (snd (processUserQuery env a q w))
          = addToConversation (addToConversation a ''user'' q (clock env w))
              ''assistant'' (JStr response) (clock env (snd (run_stages env q w)))
      \<and> (length (conversations a) < 19 \<longrightarrow>
           length (conversations (fst (snd (processUserQuery env a q w))))
             = length (conversations a) + 2)
      \<and> (19 \<le> length (conversations a) \<and> length (conversations a) \<le> 20 \<longrightarrow>
           length (conversations (fst (snd (processUserQuery env a q w)))) = 20))"
proof (intro conjI impI)
  assume f: "fst (run_stages env q w) = Inl msg"
  then obtain w' where r: "run_stages env q w = (Inl msg, w')"
    by (cases "run_stages env q w") simp
  show "fst (processUserQuery env a q w)
        = ErrorMessage (''Wystapil blad podczas przetwarzania zapytania: '' @ msg)"
    by (simp add: processUserQuery_def Let_def r)
  show s: "fst (snd (processUserQuery env a q w)) = addToConversation a ''user'' q (clock env w)"
    by (simp add: processUserQuery_def Let_def r)
  show "length (conversations (fst (snd (processUserQuery env a q w))))
          = length (conversations a) + 1" if "length (conversations a) < 20"
    using that by (simp add: s addToConversation_length)
  show "length (conversations (fst (snd (processUserQuery env a q w)))) = 20"
    if "length (conversations a) = 20"
    using that by (simp add: s addToConversation_length)
next
  assume f: "fst (run_stages env q w) = Inr response"
  then obtain w' where r: "run_stages env q w = (Inr response, w')"
    by (cases "run_stages env q w") simp
  show "fst (processUserQuery env a q w) = Response response"
    by (simp add: processUserQuery_def Let_def r)
  show s: "fst (snd (processUserQuery env a q w))
          = addToConversation (addToConversation a ''user'' q (clock env w))
              ''assistant'' (JStr response) (clock env (snd (run_stages env q w)))"
    by (simp add: processUserQuery_def Let_def r)
  show "length (conversations (fst (snd (processUserQuery env a q w))))
          = length (conversations a) + 2" if "length (conversations a) < 19"
    using that by (simp add: s addToConversation_length)
  show "length (conversations (fst (snd (processUserQuery env a q w)))) = 20"
    if "19 \<le> length (conversations a) \<and> length (conversations a) \<le> 20"
    using that by (simp add: s addToConversation_length)
qed

theorem processUserQuery_history_witness:
  "fst (run_stages failing_stages (JStr ''q'') ()) = Inl ''boom''
   \<and> fst (processUserQuery failing_stages (new_MCPAgent None) (JStr ''q'') ())
       = ErrorMessage ''Wystapil blad podczas przetwarzania zapytania: boom''
   \<and> length (conversations (new_MCPAgent None)) < 20
   \<and> length (conversations
         (fst (snd (processUserQuery failing_stages (new_MCPAgent None) (JStr ''q'') ()))))
       = length (conversations (new_MCPAgent None)) + 1
   \<and> fst (run_stages returning_stages (JStr ''q'') ()) = Inr ''done''
   \<and> fst (processUserQuery returning_stages (new_MCPAgent None) (JStr ''q'') ())
       = Response ''done''
   \<and> length (conversations (new_MCPAgent None)) < 19
   \<and> length (conversations
         (fst (snd (processUserQuery returning_stages (new_MCPAgent None) (JStr ''q'') ()))))
       = length (conversations (new_MCPAgent None)) + 2
   \<and> length (conversations full_agent) = 20
   \<and> length (conversations
         (fst (snd (processUserQuery returning_stages full_agent (JStr ''q'') ())))) = 20"
proof -
  have f: "fst (run_stages failing_stages (JStr ''q'') ()) = Inl ''boom''"
    by (simp add: run_stages_def failing_stages_def)
  have g: "fst (run_stages returning_stages (JStr ''q'') ()) = Inr ''done''"
    by (simp add: run_stages_def returning_stages_def)
  have e: "length (conversations (new_MCPAgent None)) = 0"
    by (simp add: new_MCPAgent_def)
  have l: "length (conversations full_agent) = 20"
    by (simp add: full_agent_conversations)
  from processUserQuery_history[of failing_stages "JStr ''q''" "()" "''boom''"
          "new_MCPAgent None" "''done''"]
       processUserQuery_history[of returning_stages "JStr ''q''" "()" "''boom''"
          "new_MCPAgent None" "''done''"]
       processUserQuery_history[of returning_stages "JStr ''q''" "()" "''boom''"
          full_agent "''done''"]
       f g e l
  show ?thesis by (simp add: addToConversation_length full_agent_conversations)
qed

text \<open>
  At a history of 20 turns a failed query leaves 20 turns, not 21, and the reply is the
  error text.
\<close>

theorem processUserQuery_growth_counterexample:
  "length (conversations full_agent) = 20
   \<and> fst (processUserQuery failing_stages full_agent (JStr ''q'') ())
       = ErrorMessage ''Wystapil blad podczas przetwarzania zapytania: boom''
   \<and> length (conversations
         (fst (snd (processUserQuery failing_stages full_agent (JStr ''q'') ())))) = 20
   \<and> length (conversations
         (fst (snd (processUserQuery failing_stages full_agent (JStr ''q'') ()))))
       \<noteq> length (conversations full_agent) + 1"
  by (simp add: processUserQuery_def Let_def run_stages_def failing_stages_def
      addToConversation_length full_agent_conversations)

end
